theory Spec2Isabelle
  imports Complex_Main "HOL-Library.Multiset" "HOL-Library.Sublist"
begin

section \<open>Dashboard frontend: the Tickets kanban page\<close>

text \<open>
  The page component \<^verbatim>\<open>Tickets\<close> holds the ticket list fetched from the API and renders
  four kanban columns. Only the fields of \<^verbatim>\<open>Ticket\<close> that the page reads are kept;
  \<^verbatim>\<open>id\<close> is written \<open>ticket_id\<close>.
  \<^verbatim>\<open>
  const COLUMNS = [
    { key: 'backlog', label: 'Backlog', color: '#64748b' },
    { key: 'todo', label: 'Todo', color: '#3b82f6' },
    { key: 'in_progress', label: 'In Progress', color: '#f59e0b' },
    { key: 'done', label: 'Done', color: '#22c55e' },
  ];
  ...
  <span ...>{tickets.length} total</span>
  ...
  {COLUMNS.map((col) => {
    const colTickets = tickets.filter((t) => t.status === col.key);
    return ( <div key={col.key} ...> ... {colTickets.length} ...
               {colTickets.map((t) => ( <div key={t.id} ...> ... </div> ))} </div> );
  })}
  \<close>
\<close>

record Ticket =
  ticket_id :: nat
  title :: string
  status :: string
  priority :: string
  project_name :: "string option"
  assignee :: string

record Column =
  key :: string
  label :: string
  color :: string

definition COLUMNS :: "Column list" where
  "COLUMNS =
     [\<lparr>key = ''backlog'', label = ''Backlog'', color = ''#64748b''\<rparr>,
      \<lparr>key = ''todo'', label = ''Todo'', color = ''#3b82f6''\<rparr>,
      \<lparr>key = ''in_progress'', label = ''In Progress'', color = ''#f59e0b''\<rparr>,
      \<lparr>key = ''done'', label = ''Done'', color = ''#22c55e''\<rparr>]"

text \<open>\<^verbatim>\<open>tickets.filter((t) => t.status === col.key)\<close>: strict equality of two strings.\<close>

definition colTickets :: "Ticket list \<Rightarrow> Column \<Rightarrow> Ticket list" where
  "colTickets tickets col = filter (\<lambda>t. status t = key col) tickets"

text \<open>
  What the page shows: the header's total, and for every entry of \<open>COLUMNS\<close>, in order,
  the column, the count shown beside its label and the cards below it.
\<close>

record RenderedColumn =
  column :: Column
  shown_count :: nat
  cards :: "Ticket list"

record TicketsPage =
  total_shown :: nat
  columns :: "RenderedColumn list"

definition render_column :: "Ticket list \<Rightarrow> Column \<Rightarrow> RenderedColumn" where
  "render_column tickets col =
     \<lparr>column = col,
      shown_count = length (colTickets tickets col),
      cards = colTickets tickets col\<rparr>"

definition Tickets :: "Ticket list \<Rightarrow> TicketsPage" where
  "Tickets tickets =
     \<lparr>total_shown = length tickets, columns = map (render_column tickets) COLUMNS\<rparr>"

text \<open>The keys of the four columns, in the order of display.\<close>

lemma column_keys: "map key COLUMNS = [''backlog'', ''todo'', ''in_progress'', ''done'']"
  by (simp add: COLUMNS_def)

lemma columns_of_page: "columns (Tickets tickets) = map (render_column tickets) COLUMNS"
  by (simp add: Tickets_def)

lemma cards_of_column:
  "t \<in> set (cards (render_column tickets col)) \<longleftrightarrow> t \<in> set tickets \<and> status t = key col"
  by (auto simp: render_column_def colTickets_def)

lemma column_of_rendered: "column (render_column tickets col) = col"
  by (simp add: render_column_def)

text \<open>
  Claim C8. Every rendered column is one of the four of \<open>COLUMNS\<close>, and a ticket of the
  list has a card in a rendered column exactly when its status equals that column's key.
  Hence a ticket whose status is none of \<open>backlog\<close>, \<open>todo\<close>, \<open>in_progress\<close>, \<open>done\<close>
  (such as \<open>blocked\<close> or \<open>review\<close>) has a card in no column, while the total shown in the
  header counts every ticket of the list.
\<close>

theorem tickets_kanban_columns:
  "map (key \<circ> column) (columns (Tickets tickets)) =
     [''backlog'', ''todo'', ''in_progress'', ''done'']
   \<and> (\<forall>rc \<in> set (columns (Tickets tickets)). \<forall>t.
         t \<in> set (cards rc) \<longleftrightarrow> t \<in> set tickets \<and> status t = key (column rc))
   \<and> (\<forall>t. status t \<notin> {''backlog'', ''todo'', ''in_progress'', ''done''} \<longrightarrow>
         (\<forall>rc \<in> set (columns (Tickets tickets)). t \<notin> set (cards rc)))
   \<and> total_shown (Tickets tickets) = length tickets"
proof -
  have keys: "map (key \<circ> column) (columns (Tickets tickets)) =
      [''backlog'', ''todo'', ''in_progress'', ''done'']"
    by (simp add: columns_of_page column_of_rendered column_keys [symmetric] comp_def)
  have iff: "t \<in> set (cards rc) \<longleftrightarrow> t \<in> set tickets \<and> status t = key (column rc)"
    if "rc \<in> set (columns (Tickets tickets))" for rc t
  proof -
    from that obtain col where "rc = render_column tickets col"
      by (auto simp: columns_of_page)
    then show ?thesis
      by (simp add: cards_of_column column_of_rendered)
  qed
  have none: "t \<notin> set (cards rc)"
    if out: "status t \<notin> {''backlog'', ''todo'', ''in_progress'', ''done''}"
      and rc: "rc \<in> set (columns (Tickets tickets))" for rc t
  proof
    assume "t \<in> set (cards rc)"
    with iff [OF rc] have "status t = key (column rc)"
      by simp
    moreover from rc have "key (column rc) \<in> set (map (key \<circ> column) (columns (Tickets tickets)))"
      by (simp add: image_iff) blast
    ultimately show False
      using out unfolding keys by simp
  qed
  have "total_shown (Tickets tickets) = length tickets"
    by (simp add: Tickets_def)
  with keys iff none show ?thesis
    by blast
qed

text \<open>
  A board of three tickets, one of them \<open>blocked\<close>: the blocked ticket is in the list and
  in the total, and in none of the four columns.
\<close>

definition ticket_todo :: Ticket where
  "ticket_todo = \<lparr>ticket_id = 1, title = ''Wire the feed'', status = ''todo'',
     priority = ''high'', project_name = Some ''mybro'', assignee = ''andy''\<rparr>"

definition ticket_blocked :: Ticket where
  "ticket_blocked = \<lparr>ticket_id = 2, title = ''Rotate keys'', status = ''blocked'',
     priority = ''urgent'', project_name = None, assignee = ''andy''\<rparr>"

definition ticket_done :: Ticket where
  "ticket_done = \<lparr>ticket_id = 3, title = ''Schema'', status = ''done'',
     priority = ''low'', project_name = Some ''mybro'', assignee = ''andy''\<rparr>"

theorem tickets_kanban_columns_witness:
  "status ticket_blocked \<notin> {''backlog'', ''todo'', ''in_progress'', ''done''}
   \<and> ticket_blocked \<in> set [ticket_todo, ticket_blocked, ticket_done]
   \<and> list_all (\<lambda>rc. ticket_blocked \<notin> set (cards rc))
         (columns (Tickets [ticket_todo, ticket_blocked, ticket_done]))
   \<and> map cards (columns (Tickets [ticket_todo, ticket_blocked, ticket_done])) =
         [[], [ticket_todo], [], [ticket_done]]
   \<and> total_shown (Tickets [ticket_todo, ticket_blocked, ticket_done]) = 3"
proof -
  have out: "status ticket_blocked \<notin> {''backlog'', ''todo'', ''in_progress'', ''done''}"
    by (simp add: ticket_blocked_def)
  from tickets_kanban_columns [of "[ticket_todo, ticket_blocked, ticket_done]"] out
  have "\<forall>rc \<in> set (columns (Tickets [ticket_todo, ticket_blocked, ticket_done])).
          ticket_blocked \<notin> set (cards rc)"
    and "total_shown (Tickets [ticket_todo, ticket_blocked, ticket_done]) = length [ticket_todo, ticket_blocked, ticket_done]"
    by blast+
  moreover have "map cards (columns (Tickets [ticket_todo, ticket_blocked, ticket_done])) =
         [[], [ticket_todo], [], [ticket_done]]"
    by (simp add: Tickets_def COLUMNS_def render_column_def colTickets_def
        ticket_todo_def ticket_blocked_def ticket_done_def)
  ultimately show ?thesis
    using out by (simp add: list_all_iff)
qed

section \<open>Dashboard frontend: the project table\<close>

subsection \<open>JavaScript numbers\<close>








subsection \<open>ProjectTable\<close>














definition toggle_showInactive :: "bool \<Rightarrow> bool" where
  "toggle_showInactive showInactive = (\<not> showInactive)"



















section \<open>Dashboard frontend: the API client\<close>

text \<open>
  \<^verbatim>\<open>
  const BASE = '/api';

  async function request<T>(path: string, options?: RequestInit): Promise<T> {
    const res = await fetch(`${BASE}${path}`, {
      headers: { 'Content-Type': 'application/json' },
      ...options,
    });
    if (!res.ok) throw new Error(`${res.status} ${res.statusText}`);
    return res.json();
  }
  \<close>
  A rejected promise is the left summand of the result, carrying the error thrown.
  The network is the parameter \<open>fetch\<close>: it answers a URL and an init object with a
  response, or rejects. A response carries, besides its status line, the outcome of
  its \<^verbatim>\<open>json()\<close> method: the parsed body, or the rejection of a body that is not JSON.
  \<^verbatim>\<open>res.status\<close> is written \<open>http_status\<close> and \<^verbatim>\<open>method\<close> is written \<open>http_method\<close>.
\<close>

datatype js_error = Error string | SyntaxError string | TypeError string

datatype json_value =
  JNull | JBool bool | JNum real | JStr string
| JArr "json_value list" | JObj "(string \<times> json_value) list"

record Response =
  ok :: bool
  http_status :: nat
  statusText :: string
  json :: "js_error + json_value"

record RequestInit =
  headers :: "((string \<times> string) list) option"
  http_method :: "string option"
  body :: "string option"

definition BASE :: string where
  "BASE = ''/api''"

text \<open>
  \<^verbatim>\<open>{ headers: {...}, ...options }\<close>: a property of \<^verbatim>\<open>options\<close> replaces the default of
  the same name; without \<^verbatim>\<open>options\<close> the defaults stand.
\<close>

definition request_init :: "RequestInit option \<Rightarrow> RequestInit" where
  "request_init options =
     (let defaults = \<lparr>headers = Some [(''Content-Type'', ''application/json'')],
                      http_method = None, body = None\<rparr>
      in case options of
           None \<Rightarrow> defaults
         | Some opts \<Rightarrow>
             \<lparr>headers = (case headers opts of None \<Rightarrow> headers defaults | Some h \<Rightarrow> Some h),
              http_method = http_method opts,
              body = body opts\<rparr>)"

text \<open>The decimal numeral of a status code, as the template literal prints it.\<close>

fun string_of_nat :: "nat \<Rightarrow> string" where
  "string_of_nat n =
     (if n < 10 then [''0123456789'' ! n]
      else string_of_nat (n div 10) @ [''0123456789'' ! (n mod 10)])"

definition request ::
  "(string \<Rightarrow> RequestInit \<Rightarrow> js_error + Response) \<Rightarrow> string \<Rightarrow> RequestInit option
     \<Rightarrow> js_error + json_value" where
  "request fetch path options =
     (case fetch (BASE @ path) (request_init options) of
        Inl e \<Rightarrow> Inl e
      | Inr res \<Rightarrow>
          if \<not> ok res
          then Inl (Error (string_of_nat (http_status res) @ '' '' @ statusText res))
          else json res)"

text \<open>
  Two answers of the network used below: a \<open>404\<close>, and a \<open>200\<close> whose body is empty, so
  that its \<^verbatim>\<open>json()\<close> rejects with a syntax error; and a \<open>200\<close> with a JSON body.
\<close>

definition res_not_found :: Response where
  "res_not_found = \<lparr>ok = False, http_status = 404, statusText = ''Not Found'',
     json = Inr (JObj [(''detail'', JStr ''Not Found'')])\<rparr>"

definition res_ok_empty :: Response where
  "res_ok_empty = \<lparr>ok = True, http_status = 200, statusText = ''OK'',
     json = Inl (SyntaxError ''Unexpected end of JSON input'')\<rparr>"

definition res_ok_tickets :: Response where
  "res_ok_tickets = \<lparr>ok = True, http_status = 200, statusText = ''OK'',
     json = Inr (JObj [(''tickets'', JArr []), (''total'', JNum 0)])\<rparr>"

definition fetch_not_found :: "string \<Rightarrow> RequestInit \<Rightarrow> js_error + Response" where
  "fetch_not_found url init = Inr res_not_found"

definition fetch_ok_empty :: "string \<Rightarrow> RequestInit \<Rightarrow> js_error + Response" where
  "fetch_ok_empty url init = Inr res_ok_empty"

definition fetch_ok_tickets :: "string \<Rightarrow> RequestInit \<Rightarrow> js_error + Response" where
  "fetch_ok_tickets url init = Inr res_ok_tickets"

lemma status_404: "string_of_nat 404 = ''404''"
  by simp

text \<open>
  Counterexample to claim C10 as first stated (\<open>request\<close> returns the parsed body
  exactly when the response is ok): the \<open>200\<close> with the empty body is ok, and \<open>request\<close>
  returns no value, it rejects with the syntax error of \<^verbatim>\<open>res.json()\<close>.
\<close>

theorem request_ok_unparsable_counterexample:
  "ok res_ok_empty
   \<and> request fetch_ok_empty ''/tickets'' None =
       Inl (SyntaxError ''Unexpected end of JSON input'')"
  by (simp add: request_def fetch_ok_empty_def res_ok_empty_def)

text \<open>
  Claim C10, amended. When the response is not ok, \<open>request\<close> throws an \<open>Error\<close> whose
  message is the status code, a space and the status text, and returns no value. When
  the response is ok, the outcome of \<open>request\<close> is the outcome of \<^verbatim>\<open>res.json()\<close>: the
  parsed body when the body parses, the rejection of \<^verbatim>\<open>res.json()\<close> otherwise. So
  \<open>request\<close> returns a value exactly when the response is ok and its body parses, and
  the value is the parsed body.
\<close>

theorem request_outcome:
  assumes "fetch (BASE @ path) (request_init options) = Inr res"
  shows "(\<not> ok res \<longrightarrow>
            request fetch path options =
              Inl (Error (string_of_nat (http_status res) @ '' '' @ statusText res)))
       \<and> (ok res \<longrightarrow> request fetch path options = json res)
       \<and> (request fetch path options = Inr v \<longleftrightarrow> ok res \<and> json res = Inr v)"
proof (cases "ok res")
  case True
  with assms show ?thesis
    by (simp add: request_def)
next
  case False
  with assms show ?thesis
    by (simp add: request_def)
qed

theorem request_outcome_witness:
  "request fetch_not_found ''/tickets'' None = Inl (Error ''404 Not Found'')
   \<and> request fetch_ok_tickets ''/tickets'' None =
       Inr (JObj [(''tickets'', JArr []), (''total'', JNum 0)])"
proof -
  have nf: "fetch_not_found (BASE @ ''/tickets'') (request_init None) = Inr res_not_found"
    by (simp add: fetch_not_found_def)
  have ok: "fetch_ok_tickets (BASE @ ''/tickets'') (request_init None) = Inr res_ok_tickets"
    by (simp add: fetch_ok_tickets_def)
  from request_outcome [where fetch = fetch_not_found and path = "''/tickets''" and options = None, OF nf]
  have "request fetch_not_found ''/tickets'' None = Inl (Error ''404 Not Found'')"
    by (simp add: res_not_found_def)
  moreover from request_outcome [where fetch = fetch_ok_tickets and path = "''/tickets''" and options = None, OF ok]
  have "request fetch_ok_tickets ''/tickets'' None =
      Inr (JObj [(''tickets'', JArr []), (''total'', JNum 0)])"
    by (simp add: res_ok_tickets_def)
  ultimately show ?thesis
    by simp
qed

section \<open>Voice pipeline: the History Store\<close>

text \<open>
  The modules of the voice pipeline (\<^verbatim>\<open>brain.py\<close>, \<^verbatim>\<open>pipeline.py\<close>,
  \<^verbatim>\<open>compute_rules.py\<close>) are listed in \<^verbatim>\<open>BACKEND.md\<close> and described in
  \<^verbatim>\<open>ARCHITECTURE.md\<close>, without their source text. The definitions of this section
  and the next are written from the specification and from \<^verbatim>\<open>ARCHITECTURE.md\<close>.
\<close>

text \<open>
  Modelled from the spec: the \<^verbatim>\<open>Decision\<close> of the data model, whose declaration
  (\<^verbatim>\<open>brain.py\<close>) is missing: \<^verbatim>\<open>speak: string?\<close>, \<^verbatim>\<open>action: string?\<close>,
  \<^verbatim>\<open>confidence: 0..1\<close>, \<^verbatim>\<open>needs_input: bool\<close>.
\<close>

record Decision =
  speak :: "string option"
  action :: "string option"
  confidence :: real
  needs_input :: bool

text \<open>
  Modelled from the spec: the tagged variants \<^verbatim>\<open>RoutingClass\<close> and the outcome of an
  Executor task (\<^verbatim>\<open>Outcome{success|failure|timeout}\<close>, and canceled on barge-in), whose
  declarations are missing.
\<close>

datatype RoutingClass = Trivial | TemplateMatched | Novel

datatype Outcome = Success | Failure | Timeout | Canceled

text \<open>
  Modelled from the spec: the \<^verbatim>\<open>Exchange\<close> of the data model, whose declaration is
  missing: one request/response cycle with its transcript, the reasoning tier used, the
  structured decision, the resulting action outcome (none when no action ran) and its
  timestamps.
\<close>

record Exchange =
  transcript :: string
  tier :: RoutingClass
  decision :: Decision
  outcome :: "Outcome option"
  started_at :: nat
  finished_at :: nat

text \<open>
  Modelled from the spec: the capacity of the History Store, missing with
  \<^verbatim>\<open>brain.py\<close>. The spec fixes a capacity \<open>N\<close>; \<^verbatim>\<open>ARCHITECTURE.md\<close> gives it:
  \<^verbatim>\<open>maintains rolling history (30 exchanges)\<close>.
\<close>

definition HISTORY_CAPACITY :: nat where
  "HISTORY_CAPACITY = 30"

text \<open>
  Modelled from the spec: the append of the History Store, missing with \<^verbatim>\<open>brain.py\<close>.
  The store is the list of the retained exchanges, oldest first. An append puts the
  exchange at the end; when the store is full, the oldest exchange is evicted first.
  The store has no other writing operation: \<^verbatim>\<open>never mutated after append\<close>.
\<close>

definition append_exchange :: "Exchange list \<Rightarrow> Exchange \<Rightarrow> Exchange list" where
  "append_exchange store x =
     (if length store \<ge> HISTORY_CAPACITY then tl store @ [x] else store @ [x])"

text \<open>
  Modelled from the spec: the store after the pipeline has appended the exchanges
  \<open>xs\<close>, in this order, to the empty store it starts with.
\<close>

definition history_after :: "Exchange list \<Rightarrow> Exchange list" where
  "history_after xs = foldl append_exchange [] xs"

lemma history_after_snoc:
  "history_after (xs @ [x]) = append_exchange (history_after xs) x"
  by (simp add: history_after_def)

text \<open>
  One append to a store that is within its capacity keeps the most recent
  \<open>HISTORY_CAPACITY\<close> entries of the store with the new exchange at its end.
\<close>

lemma append_exchange_drop:
  assumes "length store \<le> HISTORY_CAPACITY"
  shows "append_exchange store x =
    drop (length (store @ [x]) - HISTORY_CAPACITY) (store @ [x])"
proof (cases "length store = HISTORY_CAPACITY")
  case True
  then have "store \<noteq> []"
    by (auto simp: HISTORY_CAPACITY_def)
  then have "drop (Suc 0) (store @ [x]) = tl store @ [x]"
    by (cases store) simp_all
  with True show ?thesis
    by (simp add: append_exchange_def)
next
  case False
  with assms have "length store < HISTORY_CAPACITY"
    by simp
  then show ?thesis
    by (simp add: append_exchange_def)
qed

text \<open>The abstraction: the store holds the last \<open>HISTORY_CAPACITY\<close> appended exchanges.\<close>

lemma history_after_drop:
  "history_after xs = drop (length xs - HISTORY_CAPACITY) xs"
proof (induction xs rule: rev_induct)
  case Nil
  show ?case
    by (simp add: history_after_def)
next
  case (snoc x xs)
  have len: "length (history_after xs) \<le> HISTORY_CAPACITY"
    by (simp add: snoc.IH)
  have "history_after (xs @ [x]) =
      drop (length (history_after xs @ [x]) - HISTORY_CAPACITY) (history_after xs @ [x])"
    unfolding history_after_snoc by (rule append_exchange_drop [OF len])
  also have "\<dots> = drop (length (xs @ [x]) - HISTORY_CAPACITY) (xs @ [x])"
  proof (cases "length xs \<le> HISTORY_CAPACITY")
    case True
    then show ?thesis
      by (simp add: snoc.IH)
  next
    case False
    then have "length (drop (length xs - HISTORY_CAPACITY) xs) = HISTORY_CAPACITY"
      by simp
    moreover from False have "Suc (length xs) - HISTORY_CAPACITY = Suc (length xs - HISTORY_CAPACITY)"
      by simp
    ultimately show ?thesis
      using False by (simp add: snoc.IH HISTORY_CAPACITY_def)
  qed
  finally show ?case .
qed

text \<open>
  Claim C7. After any sequence of appends the store holds at most \<open>30\<close> exchanges, and
  they are the most recent ones appended, in the order of their appends. An append
  changes no exchange of the store: what it leaves is the end of the old store followed
  by the new exchange, and on a full store it is the old store without its oldest
  exchange.
\<close>

theorem history_store_bounded_fifo:
  "HISTORY_CAPACITY = 30
   \<and> length (history_after xs) \<le> HISTORY_CAPACITY
   \<and> history_after xs = drop (length xs - HISTORY_CAPACITY) xs
   \<and> suffix (history_after xs) xs
   \<and> suffix (history_after (xs @ [x])) (history_after xs @ [x])
   \<and> last (history_after (xs @ [x])) = x
   \<and> history_after (xs @ [x]) =
       (if length (history_after xs) = HISTORY_CAPACITY
        then tl (history_after xs) @ [x] else history_after xs @ [x])"
proof -
  have len: "length (history_after xs) \<le> HISTORY_CAPACITY"
    by (simp add: history_after_drop)
  have step: "history_after (xs @ [x]) =
       (if length (history_after xs) = HISTORY_CAPACITY
        then tl (history_after xs) @ [x] else history_after xs @ [x])"
    using len by (auto simp: history_after_snoc append_exchange_def)
  have "suffix (history_after xs) xs"
    unfolding history_after_drop by (rule suffix_drop)
  moreover have "suffix (history_after (xs @ [x])) (history_after xs @ [x])"
    unfolding history_after_snoc append_exchange_drop [OF len] by (rule suffix_drop)
  moreover have "last (history_after (xs @ [x])) = x"
    unfolding step by simp
  ultimately show ?thesis
    using len step history_after_drop by (simp add: HISTORY_CAPACITY_def)
qed

text \<open>
  Thirty-one exchanges appended in turn, numbered by their start times \<open>0\<close> to \<open>30\<close>:
  the store holds the thirty numbered \<open>1\<close> to \<open>30\<close>, the first one is gone.
\<close>

definition exchange_at :: "nat \<Rightarrow> Exchange" where
  "exchange_at n =
     \<lparr>transcript = ''status check'', tier = Trivial,
      decision = \<lparr>speak = Some ''all clear'', action = None, confidence = 0.95,
                  needs_input = False\<rparr>,
      outcome = None, started_at = n, finished_at = n + 1\<rparr>"

theorem history_store_bounded_fifo_witness:
  "history_after (map exchange_at [0..<31]) = map exchange_at [1..<31]
   \<and> length (history_after (map exchange_at [0..<31])) = 30"
  using history_store_bounded_fifo [of "map exchange_at [0..<31]"]
  by (simp add: HISTORY_CAPACITY_def drop_map)

section \<open>Voice pipeline: the Compute Router\<close>

text \<open>
  Modelled from the spec: the tagged variant \<^verbatim>\<open>ComputeTarget\<close>, whose declaration
  (\<^verbatim>\<open>compute_rules.py\<close>) is missing. The spec's local-cpu, local-gpu,
  neural-accelerator, remote-gpu and client-side are, in the names of
  \<^verbatim>\<open>ARCHITECTURE.md\<close>, \<^verbatim>\<open>LOCAL_CPU\<close>, \<^verbatim>\<open>LOCAL_GPU\<close>, \<^verbatim>\<open>LOCAL_ANE\<close>, \<^verbatim>\<open>REMOTE_CUDA\<close> and
  \<^verbatim>\<open>WASM_BROWSER\<close>.
\<close>

datatype ComputeTarget = LOCAL_CPU | LOCAL_GPU | LOCAL_ANE | REMOTE_CUDA | WASM_BROWSER

text \<open>
  Modelled from the spec: the input of the router, whose declaration is missing: an
  estimated element count, an estimated wall-clock duration (in seconds) and the flag
  that says whether client-side execution is acceptable.
\<close>

record action_profile =
  element_count :: nat
  duration_s :: nat
  client_side_ok :: bool

text \<open>
  Modelled from the spec: the four threshold constants of the router, missing with
  \<^verbatim>\<open>compute_rules.py\<close>. \<^verbatim>\<open>ARCHITECTURE.md\<close>: \<^verbatim>\<open>GPU >50k elements, SIMD >1k elements,
  checkpointing >10 min, cloud offload >30 min\<close>.
\<close>

definition GPU_ELEMENTS :: nat where
  "GPU_ELEMENTS = 50000"

definition SIMD_ELEMENTS :: nat where
  "SIMD_ELEMENTS = 1000"

definition CHECKPOINT_SECONDS :: nat where
  "CHECKPOINT_SECONDS = 10 * 60"

definition OFFLOAD_SECONDS :: nat where
  "OFFLOAD_SECONDS = 30 * 60"

text \<open>
  Modelled from the spec: the function \<^verbatim>\<open>route\<close> of the Compute Router, missing with
  \<^verbatim>\<open>compute_rules.py\<close>. An estimated duration above the offload threshold prefers
  the remote GPU; otherwise the work stays local, on the GPU above the element
  threshold and on the CPU up to it. The spec states no threshold that selects the
  neural accelerator or client-side execution, so this function selects neither.
\<close>

definition route :: "action_profile \<Rightarrow> ComputeTarget" where
  "route p =
     (if duration_s p > OFFLOAD_SECONDS then REMOTE_CUDA
      else if element_count p > GPU_ELEMENTS then LOCAL_GPU
      else LOCAL_CPU)"

text \<open>
  Modelled from the spec: the path taken on the local CPU, missing with
  \<^verbatim>\<open>compute_rules.py\<close>: SIMD/parallel above the SIMD threshold and up to the GPU
  threshold, scalar otherwise.
\<close>

datatype CpuPath = Scalar | SimdParallel

definition cpu_path :: "action_profile \<Rightarrow> CpuPath" where
  "cpu_path p =
     (if element_count p > SIMD_ELEMENTS \<and> element_count p \<le> GPU_ELEMENTS
      then SimdParallel else Scalar)"

text \<open>
  Modelled from the spec: whether the router requires checkpoint support, missing with
  \<^verbatim>\<open>compute_rules.py\<close>: it does above the checkpoint threshold.
\<close>

definition requires_checkpoint :: "action_profile \<Rightarrow> bool" where
  "requires_checkpoint p \<longleftrightarrow> duration_s p > CHECKPOINT_SECONDS"

lemma route_remote_iff: "route p = REMOTE_CUDA \<longleftrightarrow> duration_s p > 1800"
  by (simp add: route_def OFFLOAD_SECONDS_def)

lemma route_gpu_iff:
  "route p = LOCAL_GPU \<longleftrightarrow> duration_s p \<le> 1800 \<and> element_count p > 50000"
  by (auto simp: route_def OFFLOAD_SECONDS_def GPU_ELEMENTS_def)

lemma route_cpu_iff:
  "route p = LOCAL_CPU \<longleftrightarrow> duration_s p \<le> 1800 \<and> element_count p \<le> 50000"
  by (auto simp: route_def OFFLOAD_SECONDS_def GPU_ELEMENTS_def)

text \<open>
  Claim C2. The thresholds are strict. A duration above 30 minutes, and no other,
  goes to the remote GPU. Up to 30 minutes the work is local: on the GPU when the
  element count is above 50,000, on the CPU otherwise, there on the SIMD/parallel path
  when the count is above 1,000. Checkpoint support is required above 10 minutes, and
  only then.
\<close>

theorem route_thresholds:
  "(route p = REMOTE_CUDA \<longleftrightarrow> duration_s p > 30 * 60)
   \<and> (route p = LOCAL_GPU \<longleftrightarrow> duration_s p \<le> 30 * 60 \<and> element_count p > 50000)
   \<and> (route p = LOCAL_CPU \<longleftrightarrow> duration_s p \<le> 30 * 60 \<and> element_count p \<le> 50000)
   \<and> (cpu_path p = SimdParallel \<longleftrightarrow> element_count p > 1000 \<and> element_count p \<le> 50000)
   \<and> (cpu_path p = Scalar \<longleftrightarrow> element_count p \<le> 1000 \<or> element_count p > 50000)
   \<and> (requires_checkpoint p \<longleftrightarrow> duration_s p > 10 * 60)"
proof -
  have "cpu_path p = SimdParallel \<longleftrightarrow> element_count p > 1000 \<and> element_count p \<le> 50000"
    by (simp add: cpu_path_def SIMD_ELEMENTS_def GPU_ELEMENTS_def)
  moreover have "cpu_path p = Scalar \<longleftrightarrow> element_count p \<le> 1000 \<or> element_count p > 50000"
    by (auto simp: cpu_path_def SIMD_ELEMENTS_def GPU_ELEMENTS_def)
  moreover have "requires_checkpoint p \<longleftrightarrow> duration_s p > 10 * 60"
    by (simp add: requires_checkpoint_def CHECKPOINT_SECONDS_def)
  ultimately show ?thesis
    using route_remote_iff [of p] route_gpu_iff [of p] route_cpu_iff [of p] by simp
qed

text \<open>
  The boundary cases of the spec, at a duration of one minute and at an element count
  of ten: 50,000 elements stay on the CPU (SIMD/parallel) and 50,001 go to the GPU;
  30 minutes stay local and 30 minutes and a second go to the remote GPU; 10 minutes
  need no checkpoint and 10 minutes and a second do.
\<close>

theorem route_thresholds_witness:
  "route \<lparr>element_count = 50000, duration_s = 60, client_side_ok = False\<rparr> = LOCAL_CPU
   \<and> cpu_path \<lparr>element_count = 50000, duration_s = 60, client_side_ok = False\<rparr> = SimdParallel
   \<and> route \<lparr>element_count = 50001, duration_s = 60, client_side_ok = False\<rparr> = LOCAL_GPU
   \<and> cpu_path \<lparr>element_count = 1000, duration_s = 60, client_side_ok = False\<rparr> = Scalar
   \<and> cpu_path \<lparr>element_count = 1001, duration_s = 60, client_side_ok = False\<rparr> = SimdParallel
   \<and> route \<lparr>element_count = 10, duration_s = 1800, client_side_ok = False\<rparr> = LOCAL_CPU
   \<and> route \<lparr>element_count = 10, duration_s = 1801, client_side_ok = False\<rparr> = REMOTE_CUDA
   \<and> \<not> requires_checkpoint \<lparr>element_count = 10, duration_s = 600, client_side_ok = False\<rparr>
   \<and> requires_checkpoint \<lparr>element_count = 10, duration_s = 601, client_side_ok = False\<rparr>"
  using
    route_thresholds [of "\<lparr>element_count = 50000, duration_s = 60, client_side_ok = False\<rparr>"]
    route_thresholds [of "\<lparr>element_count = 50001, duration_s = 60, client_side_ok = False\<rparr>"]
    route_thresholds [of "\<lparr>element_count = 1000, duration_s = 60, client_side_ok = False\<rparr>"]
    route_thresholds [of "\<lparr>element_count = 1001, duration_s = 60, client_side_ok = False\<rparr>"]
    route_thresholds [of "\<lparr>element_count = 10, duration_s = 1800, client_side_ok = False\<rparr>"]
    route_thresholds [of "\<lparr>element_count = 10, duration_s = 1801, client_side_ok = False\<rparr>"]
    route_thresholds [of "\<lparr>element_count = 10, duration_s = 600, client_side_ok = False\<rparr>"]
    route_thresholds [of "\<lparr>element_count = 10, duration_s = 601, client_side_ok = False\<rparr>"]
  by simp

end
